theory Spec2Isabelle
  imports Main
begin

section \<open>JavaScript values reaching \<open>validate\<close>\<close>

text \<open>
  The configuration handed to \<open>validate\<close> is an arbitrary JavaScript value. Objects are
  association lists of their own enumerable properties, in insertion order. Numbers
  matter only through their truthiness, so a number is an integer or \<open>NaN\<close>.
\<close>

datatype js_value =
    JUndefined
  | JNull
  | JBool bool
  | JNumber int
  | JNaN
  | JString string
  | JArray "js_value list"
  | JObject "(string \<times> js_value) list"
  | JFunction string

type_synonym js_object = "(string \<times> js_value) list"

text \<open>\<open>!x\<close> is \<open>\<not> truthy x\<close>.\<close>

fun truthy :: "js_value \<Rightarrow> bool" where
  "truthy JUndefined = False"
| "truthy JNull = False"
| "truthy (JBool b) = b"
| "truthy (JNumber n) = (n \<noteq> 0)"
| "truthy JNaN = False"
| "truthy (JString s) = (s \<noteq> [])"
| "truthy (JArray xs) = True"
| "truthy (JObject kvs) = True"
| "truthy (JFunction f) = True"

fun typeof :: "js_value \<Rightarrow> string" where
  "typeof JUndefined = ''undefined''"
| "typeof JNull = ''object''"
| "typeof (JBool b) = ''boolean''"
| "typeof (JNumber n) = ''number''"
| "typeof JNaN = ''number''"
| "typeof (JString s) = ''string''"
| "typeof (JArray xs) = ''object''"
| "typeof (JObject kvs) = ''object''"
| "typeof (JFunction f) = ''function''"

fun isArray :: "js_value \<Rightarrow> bool" where
  "isArray (JArray xs) = True"
| "isArray v = False"

text \<open>
  \<open>get_prop v k\<close> is the property read \<open>v.k\<close> for a name \<open>k\<close> that no prototype defines:
  an own property of an object, \<open>undefined\<close> on every other value that \<open>validate\<close>
  reads a property of.
\<close>

fun get_prop :: "js_value \<Rightarrow> string \<Rightarrow> js_value" where
  "get_prop (JObject kvs) k = (case map_of kvs k of None \<Rightarrow> JUndefined | Some v \<Rightarrow> v)"
| "get_prop v k = JUndefined"

text \<open>\<open>Object.keys(v).length\<close>: the number of own enumerable properties.\<close>

fun keys_length :: "js_value \<Rightarrow> nat" where
  "keys_length (JObject kvs) = length kvs"
| "keys_length (JArray xs) = length xs"
| "keys_length (JString s) = length s"
| "keys_length v = 0"

text \<open>
  \<open>set_prop\<close> is the assignment \<open>target[k] = v\<close>: an existing key keeps its position.
  \<open>object_assign target source\<close> is \<open>Object.assign(target, source)\<close> for one source:
  every own property of the source is assigned in order; a source that is
  \<open>null\<close>, \<open>undefined\<close> or a non-string primitive contributes nothing.
\<close>

fun set_prop :: "js_object \<Rightarrow> string \<Rightarrow> js_value \<Rightarrow> js_object" where
  "set_prop [] k v = [(k, v)]"
| "set_prop ((k', v') # kvs) k v =
     (if k' = k then (k, v) # kvs else (k', v') # set_prop kvs k v)"

fun own_entries :: "js_value \<Rightarrow> js_object" where
  "own_entries (JObject kvs) = kvs"
| "own_entries v = []"

definition object_assign :: "js_object \<Rightarrow> js_value \<Rightarrow> js_object" where
  "object_assign target source =
     fold (\<lambda>(k, v) acc. set_prop acc k v) (own_entries source) target"

section \<open>Errors\<close>

text \<open>
  Every exception is a value. \<open>ConfigurationError\<close> is the \<open>Error\<close> thrown by
  \<open>validate\<close> (``Unexpected Babel configuration for AVA. ...''); \<open>ENOENT\<close> is raised by
  \<open>fs.readFileSync\<close> on a missing file; \<open>Thrown\<close> is whatever an external collaborator
  (Babel, convert-source-map) throws, with its message.
\<close>

datatype error =
    ConfigurationError
  | ENOENT string
  | Thrown string

section \<open>\<open>validate\<close>\<close>

record config =
  testOptions :: js_object

definition defaultOptions :: js_object where
  "defaultOptions = [(''babelrc'', JBool True)]"

text \<open>
  The result \<open>null\<close> is \<open>None\<close>. The guard of the \<open>throw\<close> is a chain of \<open>||\<close>, evaluated
  left to right; each disjunct is one \<open>if\<close> here.
\<close>

definition validate :: "js_value \<Rightarrow> error + config option" where
  "validate conf =
     (if conf = JBool False then Inr None
      else if conf = JUndefined then Inr (Some \<lparr>testOptions = defaultOptions\<rparr>)
      else if \<not> truthy conf then Inl ConfigurationError
      else if typeof conf \<noteq> ''object'' then Inl ConfigurationError
      else if \<not> truthy (get_prop conf ''testOptions'') then Inl ConfigurationError
      else if typeof (get_prop conf ''testOptions'') \<noteq> ''object'' then Inl ConfigurationError
      else if isArray (get_prop conf ''testOptions'') then Inl ConfigurationError
      else if keys_length conf > 1 then Inl ConfigurationError
      else Inr (Some \<lparr>testOptions =
             object_assign (object_assign [] (JObject defaultOptions))
               (get_prop conf ''testOptions'')\<rparr>))"

section \<open>The effective environment name\<close>

text \<open>
  \<open>process.env\<close> maps names to strings; a variable that is not set reads as \<open>undefined\<close>,
  which is falsy, as is the empty string. The expression is
  \<open>BABEL_ENV || ('NODE_ENV' in env ? NODE_ENV : 'test') || 'development'\<close>.
\<close>

type_synonym process_env = "string \<rightharpoonup> string"

definition envName :: "process_env \<Rightarrow> string" where
  "envName env =
     (let babel_env = (case env ''BABEL_ENV'' of None \<Rightarrow> [] | Some v \<Rightarrow> v);
          node_env = (case env ''NODE_ENV'' of None \<Rightarrow> ''test'' | Some v \<Rightarrow> v)
      in if babel_env \<noteq> [] then babel_env
         else if node_env \<noteq> [] then node_env
         else ''development'')"

section \<open>Paths\<close>

text \<open>
  The POSIX flavour of Node's \<open>path\<close> module, on strings of bytes. \<open>segments\<close> splits
  a path at every \<open>/\<close>; \<open>join_segments\<close> puts single separators back.
\<close>

fun segments :: "string \<Rightarrow> string list" where
  "segments [] = [[]]"
| "segments (c # cs) =
     (if c = CHR ''/'' then [] # segments cs
      else (case segments cs of [] \<Rightarrow> [[c]] | s # ss \<Rightarrow> (c # s) # ss))"

fun join_segments :: "string list \<Rightarrow> string" where
  "join_segments [] = []"
| "join_segments [s] = s"
| "join_segments (s # t # ts) = s @ ''/'' @ join_segments (t # ts)"

text \<open>
  One step of \<open>normalizeString\<close>, on the segments kept so far, last one first: an empty
  segment and \<open>.\<close> are dropped, \<open>..\<close> removes the segment before it, and is kept only
  where nothing is left to remove and the path may climb above its root.
\<close>

fun normalize_step :: "bool \<Rightarrow> string \<Rightarrow> string list \<Rightarrow> string list" where
  "normalize_step allowAboveRoot seg st =
     (if seg = [] then st
      else if seg = ''.'' then st
      else if seg = ''..'' then
        (case st of
           [] \<Rightarrow> if allowAboveRoot then [''..''] else []
         | t # ts \<Rightarrow>
             if t = ''..'' then (if allowAboveRoot then ''..'' # st else st) else ts)
      else seg # st)"

declare normalize_step.simps [simp del]

definition normalizeString :: "bool \<Rightarrow> string \<Rightarrow> string" where
  "normalizeString allowAboveRoot p =
     join_segments (rev (fold (normalize_step allowAboveRoot) (segments p) []))"

definition normalize :: "string \<Rightarrow> string" where
  "normalize p =
     (if p = [] then ''.''
      else
        let isAbsolute = (hd p = CHR ''/'');
            trailingSeparator = (last p = CHR ''/'');
            r = normalizeString (\<not> isAbsolute) p
        in if r = [] then (if isAbsolute then ''/'' else if trailingSeparator then ''./'' else ''.'')
           else (if isAbsolute then ''/'' else []) @ r @ (if trailingSeparator then ''/'' else []))"

text \<open>\<open>path.join(a, b)\<close>: the non-empty arguments joined by \<open>/\<close>, then normalised.\<close>

definition path_join :: "string \<Rightarrow> string \<Rightarrow> string" where
  "path_join a b =
     (let parts = filter (\<lambda>s. s \<noteq> []) [a, b]
      in if parts = [] then ''.'' else normalize (join_segments parts))"

text \<open>
  \<open>path.extname\<close>: trailing separators are skipped; within the last component the
  extension runs from its last \<open>.\<close> to its end, and is empty when the component has no
  \<open>.\<close>, when its only \<open>.\<close> is its first character, and when the component is \<open>..\<close>.
\<close>

definition extname :: "string \<Rightarrow> string" where
  "extname p =
     (let base_rev = takeWhile (\<lambda>c. c \<noteq> CHR ''/'') (dropWhile (\<lambda>c. c = CHR ''/'') (rev p));
          ext_rev = takeWhile (\<lambda>c. c \<noteq> CHR ''.'') base_rev
      in if CHR ''.'' \<in> set base_rev then
           (if drop (Suc (length ext_rev)) base_rev = [] then []
            else if base_rev = ''..'' then []
            else CHR ''.'' # rev ext_rev)
         else [])"

text \<open>
  \<open>path.dirname\<close>: the scan runs from the end down to index 1, skips trailing
  separators and the last component, and cuts at the separator before it.
\<close>

definition dirname :: "string \<Rightarrow> string" where
  "dirname p =
     (if p = [] then ''.''
      else
        let hasRoot = (hd p = CHR ''/'');
            r = dropWhile (\<lambda>c. c \<noteq> CHR ''/'') (dropWhile (\<lambda>c. c = CHR ''/'') (rev (tl p)))
        in if r = [] then (if hasRoot then ''/'' else ''.'')
           else if hasRoot \<and> tl r = [] then ''//''
           else hd p # rev (tl r))"

section \<open>Digests and the byte-order mark\<close>

text \<open>
  Modelled from the spec: the package \<open>strip-bom-buf\<close> is not part of the sources; the
  spec has it strip a leading byte-order mark from the raw bytes of a file. The mark
  is the UTF-8 one, the bytes \<open>EF BB BF\<close>.
\<close>

definition utf8_bom :: string where
  "utf8_bom = [CHR 0xEF, CHR 0xBB, CHR 0xBF]"

fun stripBomBuf :: "string \<Rightarrow> string" where
  "stripBomBuf (a # b # c # rest) =
     (if a = CHR 0xEF \<and> b = CHR 0xBB \<and> c = CHR 0xBF then rest else a # b # c # rest)"
| "stripBomBuf buf = buf"

section \<open>External collaborators\<close>

text \<open>
  Babel's options after \<open>loadPartialConfig\<close>: the plugin and preset lists that \<open>build\<close>
  edits, and every other option. A config item carries the module it resolves to
  (\<open>item_value\<close>, compared by identity in the source), its options and its type.
\<close>

datatype item_type = Plugin | Preset

datatype config_item =
  ConfigItem (item_value: string) (item_options: js_object) (item_type: item_type)

record babel_options =
  plugins :: "config_item list"
  presets :: "config_item list"
  other :: js_object

text \<open>
  Everything \<open>build\<close> and the function it returns take from outside the file: the
  versions and environment of the process, the digest behind \<open>md5Hex\<close>, Babel,
  convert-source-map, \<open>JSON.stringify\<close> and the hash write-file-atomic names its
  temporary files by. A collaborator that can throw returns a sum.
\<close>

record host =
  node_version :: string
  pkg_version :: string
  process_env :: process_env
  md5 :: "string \<Rightarrow> string"
  require_module :: "string \<Rightarrow> string"
  loadPartialConfig :: "js_object \<Rightarrow> error + babel_options"
  loadOptions :: "babel_options \<Rightarrow> error + babel_options"
  transformSync :: "string \<Rightarrow> babel_options \<Rightarrow> js_value \<Rightarrow> string \<Rightarrow> error + (string \<times> js_value)"
  fromSource :: "string \<Rightarrow> error + js_value option"
  fromMapFileSource :: "(string \<rightharpoonup> string) \<Rightarrow> string \<Rightarrow> string \<Rightarrow> error + js_value option"
  JSON_stringify :: "js_value \<Rightarrow> string"
  tmp_hash :: "nat \<Rightarrow> nat"

text \<open>
  Modelled from the spec: the package \<open>md5-hex\<close> is not part of the sources; the spec
  has the content digest be the hash of the seed digest followed by the stripped bytes.
  \<open>md5Hex\<close> of an array feeds the elements to one digest in turn: the digest of their
  concatenation.
\<close>

definition md5Hex :: "host \<Rightarrow> string list \<Rightarrow> string" where
  "md5Hex h inputs = md5 h (concat inputs)"

section \<open>The file system and its trace\<close>

datatype event =
    ReadFileSync string
  | ExistsSync string
  | TransformSync string
  | WriteFile string string
  | Rename string string

type_synonym files = "string \<rightharpoonup> string"

fun apply_event :: "event \<Rightarrow> files \<Rightarrow> files" where
  "apply_event (WriteFile p d) fs = fs(p \<mapsto> d)"
| "apply_event (Rename a b) fs =
     (case fs a of None \<Rightarrow> fs | Some d \<Rightarrow> (fs(a := None))(b \<mapsto> d))"
| "apply_event e fs = fs"

definition replay :: "event list \<Rightarrow> files \<Rightarrow> files" where
  "replay evs fs = fold apply_event evs fs"

record world =
  files :: files
  log :: "event list"
  invocations :: nat

definition emit :: "event \<Rightarrow> world \<Rightarrow> world" where
  "emit e w = w\<lparr>files := apply_event e (files w), log := log w @ [e]\<rparr>"

text \<open>
  Modelled from the spec: the package \<open>@ava/write-file-atomic\<close> is not part of the
  sources; the spec has \<open>writeFileAtomic.sync(path, data)\<close> write the data to a
  temporary file in the directory of the target and then rename it over the target.
  The temporary file is named by the target, a dot and a hash of the process and of
  a per-process counter, a number printed in decimal.
\<close>

definition digit_char :: "nat \<Rightarrow> char" where
  "digit_char d = char_of (48 + d)"

fun decimal :: "nat \<Rightarrow> string" where
  "decimal n = (if n < 10 then [digit_char n] else decimal (n div 10) @ [digit_char (n mod 10)])"

declare decimal.simps [simp del]

definition writeFileAtomic_sync :: "host \<Rightarrow> string \<Rightarrow> string \<Rightarrow> world \<Rightarrow> world" where
  "writeFileAtomic_sync h path data w =
     (let n = Suc (invocations w);
          tmpfile = path @ ''.'' @ decimal (tmp_hash h n)
      in emit (Rename tmpfile path) (emit (WriteFile tmpfile data) (w\<lparr>invocations := n\<rparr>)))"

section \<open>\<open>getSourceMap\<close>\<close>

definition getSourceMap :: "host \<Rightarrow> files \<Rightarrow> string \<Rightarrow> string \<Rightarrow> error + js_value" where
  "getSourceMap h fs filePath code =
     (case fromSource h code of
        Inl e \<Rightarrow> Inl e
      | Inr (Some sourceMap) \<Rightarrow> Inr sourceMap
      | Inr None \<Rightarrow>
          (case fromMapFileSource h fs code (dirname filePath) of
             Inl e \<Rightarrow> Inl e
           | Inr (Some sourceMap) \<Rightarrow> Inr sourceMap
           | Inr None \<Rightarrow> Inr JUndefined))"

section \<open>\<open>build\<close>\<close>

record pipeline =
  cacheDir :: string
  cacheKey :: string
  finalOptions :: babel_options

definition makeValueChecker :: "host \<Rightarrow> string \<Rightarrow> config_item \<Rightarrow> bool" where
  "makeValueChecker h ref item = (item_value item = require_module h ref)"

definition createConfigItem :: "host \<Rightarrow> string \<Rightarrow> item_type \<Rightarrow> js_object \<Rightarrow> config_item" where
  "createConfigItem h ref type options = ConfigItem (require_module h ref) options type"

fun delete_prop :: "js_object \<Rightarrow> string \<Rightarrow> js_object" where
  "delete_prop [] k = []"
| "delete_prop ((k', v) # kvs) k = (if k' = k then kvs else (k', v) # delete_prop kvs k)"

definition seedInputs :: "host \<Rightarrow> string \<Rightarrow> string list" where
  "seedInputs h projectDir =
     [node_version h, pkg_version h, projectDir, envName (process_env h)]"

text \<open>The object handed to \<open>babel.loadPartialConfig\<close>.\<close>

definition partialConfigInput :: "host \<Rightarrow> string \<Rightarrow> config option \<Rightarrow> js_object" where
  "partialConfigInput h projectDir userOptions =
     object_assign
       (object_assign
          [(''babelrc'', JBool False),
           (''babelrcRoots'', JArray [JString projectDir]),
           (''configFile'', JBool False),
           (''cwd'', JString projectDir)]
          (case userOptions of None \<Rightarrow> JNull | Some c \<Rightarrow> JObject (testOptions c)))
       (JObject
          [(''envName'', JString (envName (process_env h))),
           (''sourceMaps'', JBool True),
           (''filename'', JString ''stub.js'')])"

text \<open>The edits of the plugin and preset lists, in the order of the source.\<close>

definition addSyntaxPlugin :: "host \<Rightarrow> string \<Rightarrow> babel_options \<Rightarrow> babel_options" where
  "addSyntaxPlugin h ref t =
     (if list_ex (makeValueChecker h ref) (plugins t) then t
      else t\<lparr>plugins := createConfigItem h ref Plugin [] # plugins t\<rparr>)"

definition addStage4 :: "host \<Rightarrow> config option \<Rightarrow> babel_options \<Rightarrow> babel_options" where
  "addStage4 h userOptions t =
     (if userOptions = None then t
      else if list_ex (makeValueChecker h ''../stage-4'') (presets t) then t
      else t\<lparr>presets := createConfigItem h ''../stage-4'' Preset [] # presets t\<rparr>)"

definition addEnhancements :: "host \<Rightarrow> bool \<Rightarrow> babel_options \<Rightarrow> babel_options" where
  "addEnhancements h compileEnhancements t =
     (if compileEnhancements then
        (if list_ex (makeValueChecker h ''@ava/babel-preset-transform-test-files'') (presets t) then t
         else t\<lparr>presets := presets t @
                [createConfigItem h ''@ava/babel-preset-transform-test-files'' Preset
                   [(''powerAssert'', JBool True)]]\<rparr>)
      else t)"

definition build :: "host \<Rightarrow> string \<Rightarrow> string \<Rightarrow> config option \<Rightarrow> bool \<Rightarrow> error + pipeline option" where
  "build h projectDir cacheDir' userOptions compileEnhancements =
     (if userOptions = None \<and> \<not> compileEnhancements then Inr None
      else
        case loadPartialConfig h (partialConfigInput h projectDir userOptions) of
          Inl e \<Rightarrow> Inl e
        | Inr partialTestConfig \<Rightarrow>
            let t0 = partialTestConfig\<lparr>other :=
                       set_prop (delete_prop (other partialTestConfig) ''filename'')
                         ''configFile'' (JBool False)\<rparr>;
                t1 = addSyntaxPlugin h ''@babel/plugin-syntax-async-generators'' t0;
                t2 = addSyntaxPlugin h ''@babel/plugin-syntax-object-rest-spread'' t1;
                t3 = addStage4 h userOptions t2;
                t4 = addEnhancements h compileEnhancements t3;
                key = md5Hex h (seedInputs h projectDir)
            in case loadOptions h t4 of
                 Inl e \<Rightarrow> Inl e
               | Inr opts \<Rightarrow>
                   Inr (Some \<lparr>cacheDir = cacheDir', cacheKey = key, finalOptions = opts\<rparr>))"

section \<open>The function \<open>build\<close> returns\<close>

text \<open>
  \<open>contentDigest\<close> is the source's \<open>hash\<close> and \<open>cachePathOf\<close> its \<open>cachePath\<close>, as
  functions of the raw bytes read from the file and of its name.
\<close>

definition contentDigest :: "host \<Rightarrow> pipeline \<Rightarrow> string \<Rightarrow> string" where
  "contentDigest h p raw = md5Hex h [cacheKey p, stripBomBuf raw]"

definition cachePathOf :: "host \<Rightarrow> pipeline \<Rightarrow> string \<Rightarrow> string \<Rightarrow> string" where
  "cachePathOf h p filename raw =
     path_join (cacheDir p) (contentDigest h p raw @ extname filename)"

text \<open>
  \<open>convertSourceMap.generateMapFileComment\<close>: the single-line comment that refers to
  the map file by its path.
\<close>

definition generateMapFileComment :: "string \<Rightarrow> string" where
  "generateMapFileComment file = ''//# sourceMappingURL='' @ file"

text \<open>
  The bytes of a file and the text decoded from them are the same string here
  (\<open>contents.toString('utf8')\<close>).
\<close>

definition ensureTransformed :: "host \<Rightarrow> pipeline \<Rightarrow> string \<Rightarrow> world \<Rightarrow> (error + string) \<times> world" where
  "ensureTransformed h p filename w =
     (let w1 = emit (ReadFileSync filename) w in
      case files w1 filename of
        None \<Rightarrow> (Inl (ENOENT filename), w1)
      | Some raw \<Rightarrow>
          let contents = stripBomBuf raw;
              cachePath = cachePathOf h p filename raw;
              w2 = emit (ExistsSync cachePath) w1
          in if files w2 cachePath \<noteq> None then (Inr cachePath, w2)
             else
               case getSourceMap h (files w2) filename contents of
                 Inl e \<Rightarrow> (Inl e, w2)
               | Inr inputSourceMap \<Rightarrow>
                   let w3 = emit (TransformSync filename) w2 in
                   case transformSync h contents (finalOptions p) inputSourceMap filename of
                     Inl e \<Rightarrow> (Inl e, w3)
                   | Inr (code, outputMap) \<Rightarrow>
                       let mapPath = cachePath @ ''.map'';
                           w4 = writeFileAtomic_sync h mapPath (JSON_stringify h outputMap) w3;
                           comment = generateMapFileComment mapPath;
                           w5 = writeFileAtomic_sync h cachePath (code @ [CHR 0x0A] @ comment) w4
                       in (Inr cachePath, w5))"

section \<open>An example host\<close>

text \<open>
  A concrete host, to run the definitions on. Its digest is a 128-bit polynomial
  checksum printed as 32 hexadecimal digits; its Babel reads plugin and preset names
  from the options and marks the code it transforms with them.
\<close>

definition checksum :: "string \<Rightarrow> int" where
  "checksum s = fold (\<lambda>c a. (a * 257 + of_char c + 1) mod 2 ^ 128) s 0"

definition hex_digit :: "int \<Rightarrow> char" where
  "hex_digit d = ''0123456789abcdef'' ! nat d"

definition hex32 :: "int \<Rightarrow> string" where
  "hex32 n = map (\<lambda>i. hex_digit ((n div 16 ^ (31 - i)) mod 16)) [0..<32]"

definition example_md5 :: "string \<Rightarrow> string" where
  "example_md5 s = hex32 (checksum s)"

fun elements :: "js_value \<Rightarrow> js_value list" where
  "elements (JArray xs) = xs"
| "elements v = []"

fun item_of :: "item_type \<Rightarrow> js_value \<Rightarrow> config_item" where
  "item_of t (JString s) = ConfigItem s [] t"
| "item_of t v = ConfigItem [] [] t"

definition example_loadPartialConfig :: "js_object \<Rightarrow> error + babel_options" where
  "example_loadPartialConfig raw =
     Inr \<lparr>plugins = map (item_of Plugin) (elements (get_prop (JObject raw) ''plugins'')),
          presets = map (item_of Preset) (elements (get_prop (JObject raw) ''presets'')),
          other = delete_prop (delete_prop raw ''plugins'') ''presets''\<rparr>"

definition example_transformSync ::
  "string \<Rightarrow> babel_options \<Rightarrow> js_value \<Rightarrow> string \<Rightarrow> error + (string \<times> js_value)" where
  "example_transformSync code opts inputSourceMap filename =
     Inr (concat (map (\<lambda>i. ''/*'' @ item_value i @ ''*/'') (plugins opts @ presets opts)) @ code,
          JObject [(''version'', JNumber 3), (''file'', JString filename)])"

definition example_host :: host where
  "example_host =
     \<lparr>node_version = ''10.0.0'',
      pkg_version = ''1.0.0'',
      process_env = Map.empty,
      md5 = example_md5,
      require_module = (\<lambda>ref. ref),
      loadPartialConfig = example_loadPartialConfig,
      loadOptions = Inr,
      transformSync = example_transformSync,
      fromSource = (\<lambda>code. Inr None),
      fromMapFileSource = (\<lambda>fs code dir. Inr None),
      JSON_stringify = (\<lambda>m. ''{}''),
      tmp_hash = (\<lambda>n. 7 + n)\<rparr>"

definition example_world :: world where
  "example_world =
     \<lparr>files = [''/proj/test.js'' \<mapsto> ''const x = 1;''], log = [], invocations = 0\<rparr>"

text \<open>
  Two configurations for the example host that differ in \<open>testOptions\<close> only, the
  pipelines \<open>build\<close> makes of them, and the world after the first pipeline has
  transformed the one file of the example world.
\<close>

definition options_A :: config where
  "options_A = \<lparr>testOptions = [(''babelrc'', JBool True), (''presets'', JArray [])]\<rparr>"

definition options_B :: config where
  "options_B =
     \<lparr>testOptions = [(''babelrc'', JBool True), (''plugins'', JArray [JString ''x''])]\<rparr>"

definition example_other :: js_object where
  "example_other =
     [(''babelrc'', JBool True),
      (''babelrcRoots'', JArray [JString ''/proj'']),
      (''configFile'', JBool False),
      (''cwd'', JString ''/proj''),
      (''envName'', JString ''test''),
      (''sourceMaps'', JBool True)]"

definition pipeline_A :: pipeline where
  "pipeline_A =
     \<lparr>cacheDir = ''/proj/.cache'',
      cacheKey = md5Hex example_host (seedInputs example_host ''/proj''),
      finalOptions =
        \<lparr>plugins =
           [ConfigItem ''@babel/plugin-syntax-object-rest-spread'' [] Plugin,
            ConfigItem ''@babel/plugin-syntax-async-generators'' [] Plugin],
         presets = [ConfigItem ''../stage-4'' [] Preset],
         other = example_other\<rparr>\<rparr>"

definition pipeline_B :: pipeline where
  "pipeline_B =
     \<lparr>cacheDir = ''/proj/.cache'',
      cacheKey = md5Hex example_host (seedInputs example_host ''/proj''),
      finalOptions =
        \<lparr>plugins =
           [ConfigItem ''@babel/plugin-syntax-object-rest-spread'' [] Plugin,
            ConfigItem ''@babel/plugin-syntax-async-generators'' [] Plugin,
            ConfigItem ''x'' [] Plugin],
         presets = [ConfigItem ''../stage-4'' [] Preset],
         other = example_other\<rparr>\<rparr>"

definition pipeline_other :: pipeline where
  "pipeline_other =
     \<lparr>cacheDir = ''/proj/.cache'',
      cacheKey = md5Hex example_host (seedInputs example_host ''/other''),
      finalOptions =
        \<lparr>plugins =
           [ConfigItem ''@babel/plugin-syntax-object-rest-spread'' [] Plugin,
            ConfigItem ''@babel/plugin-syntax-async-generators'' [] Plugin],
         presets = [ConfigItem ''../stage-4'' [] Preset],
         other =
           [(''babelrc'', JBool True),
            (''babelrcRoots'', JArray [JString ''/other'']),
            (''configFile'', JBool False),
            (''cwd'', JString ''/other''),
            (''envName'', JString ''test''),
            (''sourceMaps'', JBool True)]\<rparr>\<rparr>"

definition world_after_A :: world where
  "world_after_A = snd (ensureTransformed example_host pipeline_A ''/proj/test.js'' example_world)"

text \<open>The example host with a Babel that rejects every file.\<close>

definition failing_host :: host where
  "failing_host =
     example_host\<lparr>transformSync := (\<lambda>code opts inputSourceMap filename.
        Inl (Thrown ''SyntaxError''))\<rparr>"

section \<open>Notions the properties are stated with\<close>

text \<open>
  A name that \<open>path.join\<close> appends unchanged: one non-empty segment that is neither
  \<open>.\<close> nor \<open>..\<close>. \<open>join_prefix d\<close> is what \<open>path.join(d, n)\<close> puts before such a name.
\<close>

definition plain_name :: "string \<Rightarrow> bool" where
  "plain_name n = (n \<noteq> [] \<and> CHR ''/'' \<notin> set n \<and> n \<noteq> ''.'' \<and> n \<noteq> ''..'')"

definition join_prefix :: "string \<Rightarrow> string" where
  "join_prefix d =
     (if d = [] then []
      else (if hd d = CHR ''/'' then ''/'' else []) @
           (let st = rev (fold (normalize_step (hd d \<noteq> CHR ''/'')) (segments d) [])
            in if st = [] then [] else join_segments st @ ''/''))"

text \<open>What \<open>digest('hex')\<close> of an MD5 looks like: 32 hexadecimal digits.\<close>

definition is_hex_digest :: "string \<Rightarrow> bool" where
  "is_hex_digest s = (length s = 32 \<and> set s \<subseteq> set ''0123456789abcdef'')"

text \<open>Two different inputs on which the digest of the host collides.\<close>

definition collision :: "host \<Rightarrow> string \<Rightarrow> string \<Rightarrow> bool" where
  "collision h x y = (x \<noteq> y \<and> md5 h x = md5 h y)"

section \<open>Properties of \<open>validate\<close>\<close>

lemma map_of_set_prop:
  "map_of (set_prop kvs k v) k' = (if k' = k then Some v else map_of kvs k')"
  by (induction kvs) auto

lemma map_of_fold_set_prop:
  "distinct (map fst src) \<Longrightarrow>
   map_of (fold (\<lambda>(k, v) acc. set_prop acc k v) src tgt) k =
     (case map_of src k of Some v \<Rightarrow> Some v | None \<Rightarrow> map_of tgt k)"
proof (induction src arbitrary: tgt)
  case Nil
  then show ?case by simp
next
  case (Cons kv src)
  obtain a b where kv: "kv = (a, b)" by (cases kv)
  from Cons.prems kv have nin: "map_of src a = None" and d: "distinct (map fst src)"
    by (auto simp: map_of_eq_None_iff)
  show ?case
    using Cons.IH [OF d, of "set_prop tgt a b"] nin
    by (auto simp: kv map_of_set_prop split: option.splits)
qed

lemma map_of_object_assign:
  "distinct (map fst src) \<Longrightarrow>
   map_of (object_assign tgt (JObject src)) k =
     (case map_of src k of Some v \<Rightarrow> Some v | None \<Rightarrow> map_of tgt k)"
  by (simp add: object_assign_def map_of_fold_set_prop)

lemma validate_extra_key:
  assumes "k \<in> fst ` set kvs" "k \<noteq> ''testOptions''"
  shows "validate (JObject kvs) = Inl ConfigurationError"
proof (cases "map_of kvs ''testOptions''")
  case None
  then show ?thesis by (simp add: validate_def)
next
  case (Some v)
  then have "(''testOptions'', v) \<in> set kvs" by (rule map_of_SomeD)
  moreover from assms obtain v' where "(k, v') \<in> set kvs" by auto
  ultimately have "length kvs > 1" using assms(2)
    by (cases kvs; cases "tl kvs") auto
  then show ?thesis by (simp add: validate_def)
qed

lemma validate_accepts:
  "validate (JObject [(''testOptions'', JObject opts)]) =
     Inr (Some \<lparr>testOptions = object_assign defaultOptions (JObject opts)\<rparr>)"
  by (simp add: validate_def object_assign_def defaultOptions_def)

lemma validate_Inr_iff:
  "(\<exists>c. validate conf = Inr c) \<longleftrightarrow>
     conf = JBool False \<or> conf = JUndefined \<or>
     (\<exists>opts. conf = JObject [(''testOptions'', JObject opts)])"
proof
  assume "\<exists>c. validate conf = Inr c"
  then have ok: "conf = JBool False \<or> conf = JUndefined \<or>
     (truthy conf \<and> typeof conf = ''object'' \<and> truthy (get_prop conf ''testOptions'') \<and>
      typeof (get_prop conf ''testOptions'') = ''object'' \<and>
      \<not> isArray (get_prop conf ''testOptions'') \<and> keys_length conf \<le> 1)"
    by (auto simp: validate_def split: if_splits)
  show "conf = JBool False \<or> conf = JUndefined \<or>
        (\<exists>opts. conf = JObject [(''testOptions'', JObject opts)])"
  proof (cases conf)
    case (JObject kvs)
    with ok have t: "truthy (get_prop conf ''testOptions'')"
      and ty: "typeof (get_prop conf ''testOptions'') = ''object''"
      and na: "\<not> isArray (get_prop conf ''testOptions'')" and len: "length kvs \<le> 1"
      by auto
    from t JObject obtain v where v: "map_of kvs ''testOptions'' = Some v"
      by (cases "map_of kvs ''testOptions''") auto
    with t ty na JObject obtain opts where "v = JObject opts"
      by (cases v) auto
    moreover from v len have "kvs = [(''testOptions'', v)]"
      by (cases kvs) (auto split: if_splits)
    ultimately show ?thesis using JObject by simp
  qed (use ok in auto)
next
  assume "conf = JBool False \<or> conf = JUndefined \<or>
          (\<exists>opts. conf = JObject [(''testOptions'', JObject opts)])"
  then show "\<exists>c. validate conf = Inr c"
    by (auto simp: validate_def)
qed

lemma validate_error: "validate conf = Inl e \<Longrightarrow> e = ConfigurationError"
  by (auto simp: validate_def split: if_splits)

lemma validate_Inl_iff:
  "validate conf = Inl ConfigurationError \<longleftrightarrow>
     conf \<noteq> JBool False \<and> conf \<noteq> JUndefined \<and>
     (\<forall>opts. conf \<noteq> JObject [(''testOptions'', JObject opts)])"
proof -
  have "validate conf = Inl ConfigurationError \<longleftrightarrow> \<not> (\<exists>c. validate conf = Inr c)"
    using validate_error [of conf] by (cases "validate conf") auto
  then show ?thesis by (simp add: validate_Inr_iff)
qed

text \<open>
  C7. \<open>validate(false)\<close> is the disabled sentinel, with which \<open>build\<close> returns \<open>null\<close>
  when no enhancements are requested; \<open>validate(undefined)\<close> is the default record,
  with \<open>babelrc\<close> enabled; an object with a key other than \<open>testOptions\<close> raises the
  configuration error; a nested \<open>testOptions\<close> object is merged over the defaults, its
  own keys winning.
\<close>

theorem validate_contract:
  "validate (JBool False) = Inr None
   \<and> build h projectDir cacheDir' None False = Inr None
   \<and> validate JUndefined = Inr (Some \<lparr>testOptions = [(''babelrc'', JBool True)]\<rparr>)
   \<and> (\<forall>kvs k. k \<in> fst ` set kvs \<longrightarrow> k \<noteq> ''testOptions'' \<longrightarrow>
         validate (JObject kvs) = Inl ConfigurationError)
   \<and> (\<forall>opts. distinct (map fst opts) \<longrightarrow>
         (\<exists>merged.
            validate (JObject [(''testOptions'', JObject opts)]) =
              Inr (Some \<lparr>testOptions = merged\<rparr>)
            \<and> (\<forall>k. map_of merged k =
                  (case map_of opts k of Some v \<Rightarrow> Some v | None \<Rightarrow> map_of defaultOptions k))))"
proof -
  have 1: "validate (JBool False) = Inr None"
    by (simp add: validate_def)
  have 2: "build h projectDir cacheDir' None False = Inr None"
    by (simp add: build_def)
  have 3: "validate JUndefined = Inr (Some \<lparr>testOptions = [(''babelrc'', JBool True)]\<rparr>)"
    by (simp add: validate_def defaultOptions_def)
  have 4: "validate (JObject kvs) = Inl ConfigurationError"
    if "k \<in> fst ` set kvs" "k \<noteq> ''testOptions''" for kvs k
    using that by (rule validate_extra_key)
  have 5: "\<exists>merged.
      validate (JObject [(''testOptions'', JObject opts)]) = Inr (Some \<lparr>testOptions = merged\<rparr>)
      \<and> (\<forall>k. map_of merged k =
            (case map_of opts k of Some v \<Rightarrow> Some v | None \<Rightarrow> map_of defaultOptions k))"
    if d: "distinct (map fst opts)" for opts
  proof (intro exI conjI allI)
    show "validate (JObject [(''testOptions'', JObject opts)]) =
            Inr (Some \<lparr>testOptions = object_assign defaultOptions (JObject opts)\<rparr>)"
      by (rule validate_accepts)
    show "map_of (object_assign defaultOptions (JObject opts)) k =
            (case map_of opts k of Some v \<Rightarrow> Some v | None \<Rightarrow> map_of defaultOptions k)" for k
      using d by (rule map_of_object_assign)
  qed
  from 1 2 3 4 5 show ?thesis by blast
qed

theorem validate_contract_witness:
  "''extraKey'' \<in> fst ` set [(''testOptions'', JObject [(''presets'', JArray [])]),
                              (''extraKey'', JNumber 1)]
   \<and> ''extraKey'' \<noteq> ''testOptions''
   \<and> validate (JObject [(''testOptions'', JObject [(''presets'', JArray [])]),
                        (''extraKey'', JNumber 1)]) = Inl ConfigurationError
   \<and> distinct (map fst [(''babelrc'', JBool False), (''presets'', JArray [])])
   \<and> (\<exists>merged.
        validate (JObject [(''testOptions'',
                   JObject [(''babelrc'', JBool False), (''presets'', JArray [])])]) =
          Inr (Some \<lparr>testOptions = merged\<rparr>)
        \<and> map_of merged ''babelrc'' = Some (JBool False)
        \<and> map_of merged ''presets'' = Some (JArray []))"
proof -
  let ?kvs = "[(''testOptions'', JObject [(''presets'', JArray [])]), (''extraKey'', JNumber 1)]"
  let ?opts = "[(''babelrc'', JBool False), (''presets'', JArray [])]"
  note c = validate_contract [of example_host "''/proj''" "''/proj/.cache''"]
  have a: "''extraKey'' \<in> fst ` set ?kvs" by simp
  have b: "''extraKey'' \<noteq> ''testOptions''" by simp
  have d: "distinct (map fst ?opts)" by simp
  from c a b have e: "validate (JObject ?kvs) = Inl ConfigurationError" by blast
  from c d obtain merged where
    m: "validate (JObject [(''testOptions'', JObject ?opts)]) = Inr (Some \<lparr>testOptions = merged\<rparr>)"
    and l: "\<forall>k. map_of merged k =
              (case map_of ?opts k of Some v \<Rightarrow> Some v | None \<Rightarrow> map_of defaultOptions k)"
    by blast
  from l have "map_of merged ''babelrc'' = Some (JBool False)"
    and "map_of merged ''presets'' = Some (JArray [])"
    by simp_all
  with a b d e m show ?thesis by blast
qed

text \<open>
  C9. Only \<open>false\<close> disables and only \<open>undefined\<close> selects the defaults without an
  options object: \<open>validate\<close> throws on every value that is not \<open>false\<close>, \<open>undefined\<close> or
  an object whose single key \<open>testOptions\<close> holds an object that is not an array; so
  it throws on \<open>null\<close>, \<open>0\<close>, \<open>NaN\<close>, the empty string, every non-object, an array, and
  an object whose \<open>testOptions\<close> is absent, not an object, or an array.
\<close>

theorem validate_only_false_and_undefined:
  "(validate conf = Inr None \<longleftrightarrow> conf = JBool False)
   \<and> (validate conf = Inl ConfigurationError \<longleftrightarrow>
        conf \<noteq> JBool False \<and> conf \<noteq> JUndefined \<and>
        (\<forall>opts. conf \<noteq> JObject [(''testOptions'', JObject opts)]))
   \<and> validate JNull = Inl ConfigurationError
   \<and> validate (JNumber 0) = Inl ConfigurationError
   \<and> validate JNaN = Inl ConfigurationError
   \<and> validate (JString []) = Inl ConfigurationError
   \<and> (conf \<noteq> JBool False \<longrightarrow> conf \<noteq> JUndefined \<longrightarrow> \<not> truthy conf \<longrightarrow>
        validate conf = Inl ConfigurationError)
   \<and> (conf \<noteq> JBool False \<longrightarrow> conf \<noteq> JUndefined \<longrightarrow> typeof conf \<noteq> ''object'' \<longrightarrow>
        validate conf = Inl ConfigurationError)
   \<and> validate (JArray xs) = Inl ConfigurationError
   \<and> (map_of kvs ''testOptions'' = None \<longrightarrow> validate (JObject kvs) = Inl ConfigurationError)
   \<and> (map_of kvs ''testOptions'' = Some v \<longrightarrow> typeof v \<noteq> ''object'' \<longrightarrow>
        validate (JObject kvs) = Inl ConfigurationError)
   \<and> (map_of kvs ''testOptions'' = Some JNull \<longrightarrow>
        validate (JObject kvs) = Inl ConfigurationError)
   \<and> (map_of kvs ''testOptions'' = Some (JArray ys) \<longrightarrow>
        validate (JObject kvs) = Inl ConfigurationError)"
proof -
  have 1: "validate conf = Inr None \<longleftrightarrow> conf = JBool False"
    by (auto simp: validate_def)
  have 2: "validate JNull = Inl ConfigurationError" "validate (JNumber 0) = Inl ConfigurationError"
    "validate JNaN = Inl ConfigurationError" "validate (JString []) = Inl ConfigurationError"
    "validate (JArray xs) = Inl ConfigurationError"
    by (simp_all add: validate_def)
  have 3: "validate conf = Inl ConfigurationError"
    if "conf \<noteq> JBool False" "conf \<noteq> JUndefined" "\<not> truthy conf"
    using that by (simp add: validate_def)
  have 4: "validate conf = Inl ConfigurationError"
    if "conf \<noteq> JBool False" "conf \<noteq> JUndefined" "typeof conf \<noteq> ''object''"
    using that by (simp add: validate_def)
  have 5: "validate (JObject kvs) = Inl ConfigurationError"
    if "map_of kvs ''testOptions'' = None"
    using that by (simp add: validate_def)
  have 6: "validate (JObject kvs) = Inl ConfigurationError"
    if "map_of kvs ''testOptions'' = Some v" "typeof v \<noteq> ''object''"
    using that by (simp add: validate_def)
  have 7: "validate (JObject kvs) = Inl ConfigurationError"
    if "map_of kvs ''testOptions'' = Some JNull"
    using that by (simp add: validate_def)
  have 8: "validate (JObject kvs) = Inl ConfigurationError"
    if "map_of kvs ''testOptions'' = Some (JArray ys)"
    using that by (simp add: validate_def)
  from 1 validate_Inl_iff [of conf] 2 3 4 5 6 7 8 show ?thesis by blast
qed

theorem validate_only_false_and_undefined_witness:
  "JBool True \<noteq> JBool False \<and> JBool True \<noteq> JUndefined \<and> typeof (JBool True) \<noteq> ''object''
   \<and> validate (JBool True) = Inl ConfigurationError
   \<and> map_of [(''testOptions'', JString ''x'')] ''testOptions'' = Some (JString ''x'')
   \<and> typeof (JString ''x'') \<noteq> ''object''
   \<and> validate (JObject [(''testOptions'', JString ''x'')]) = Inl ConfigurationError
   \<and> validate JNull = Inl ConfigurationError
   \<and> validate (JArray []) = Inl ConfigurationError"
  using validate_only_false_and_undefined
    [of "JBool True" "[]" "[(''testOptions'', JString ''x'')]" "JString ''x''" "[]"]
  by simp

section \<open>Properties of the environment name\<close>

text \<open>
  C2, as amended. A non-empty \<open>BABEL_ENV\<close> is the environment name. Otherwise a
  non-empty \<open>NODE_ENV\<close> is; a \<open>NODE_ENV\<close> that is set to the empty string is replaced
  by \<open>development\<close>; and only when \<open>NODE_ENV\<close> is not set at all is the name \<open>test\<close>.
\<close>

theorem envName_resolution:
  "(env ''BABEL_ENV'' = Some b \<longrightarrow> b \<noteq> [] \<longrightarrow> envName env = b)
   \<and> (env ''BABEL_ENV'' = None \<or> env ''BABEL_ENV'' = Some [] \<longrightarrow>
        (env ''NODE_ENV'' = Some n \<longrightarrow> n \<noteq> [] \<longrightarrow> envName env = n)
        \<and> (env ''NODE_ENV'' = Some [] \<longrightarrow> envName env = ''development'')
        \<and> (env ''NODE_ENV'' = None \<longrightarrow> envName env = ''test''))"
  by (auto simp: envName_def)

theorem envName_resolution_witness:
  "envName [''BABEL_ENV'' \<mapsto> ''staging'', ''NODE_ENV'' \<mapsto> ''production''] = ''staging''
   \<and> envName [''NODE_ENV'' \<mapsto> ''production''] = ''production''
   \<and> envName [''BABEL_ENV'' \<mapsto> [], ''NODE_ENV'' \<mapsto> []] = ''development''
   \<and> envName Map.empty = ''test''"
  using envName_resolution
      [of "[''BABEL_ENV'' \<mapsto> ''staging'', ''NODE_ENV'' \<mapsto> ''production'']" "''staging''" "[]"]
    envName_resolution [of "[''NODE_ENV'' \<mapsto> ''production'']" "[]" "''production''"]
    envName_resolution [of "[''BABEL_ENV'' \<mapsto> [], ''NODE_ENV'' \<mapsto> []]" "[]" "[]"]
    envName_resolution [of Map.empty "[]" "[]"]
  by simp

text \<open>
  The claim as stated fails: with \<open>NODE_ENV\<close> set to the empty string and no
  \<open>BABEL_ENV\<close>, the name is \<open>development\<close>, not the empty string.
\<close>

theorem envName_empty_NODE_ENV_counterexample:
  "[''NODE_ENV'' \<mapsto> []] ''NODE_ENV'' = Some []
   \<and> [''NODE_ENV'' \<mapsto> []] ''BABEL_ENV'' = None
   \<and> envName [''NODE_ENV'' \<mapsto> []] = ''development''
   \<and> envName [''NODE_ENV'' \<mapsto> []] \<noteq> []"
  by (simp add: envName_def)

text \<open>
  C10. A \<open>BABEL_ENV\<close> that is set to the empty string counts as not set: the name is
  the one resolved without it, from \<open>NODE_ENV\<close> or the defaults.
\<close>

theorem empty_BABEL_ENV_is_absent:
  "env ''BABEL_ENV'' = Some [] \<Longrightarrow>
     envName env = envName (env(''BABEL_ENV'' := None))
     \<and> envName env = (case env ''NODE_ENV'' of
                        None \<Rightarrow> ''test''
                      | Some n \<Rightarrow> if n \<noteq> [] then n else ''development'')"
  by (simp add: envName_def split: option.splits)

theorem empty_BABEL_ENV_is_absent_witness:
  "[''BABEL_ENV'' \<mapsto> [], ''NODE_ENV'' \<mapsto> ''production''] ''BABEL_ENV'' = Some []
   \<and> envName [''BABEL_ENV'' \<mapsto> [], ''NODE_ENV'' \<mapsto> ''production''] = ''production''
   \<and> envName ([''BABEL_ENV'' \<mapsto> [], ''NODE_ENV'' \<mapsto> ''production''](''BABEL_ENV'' := None))
       = ''production''"
proof -
  let ?env = "[''BABEL_ENV'' \<mapsto> [], ''NODE_ENV'' \<mapsto> ''production'']"
  have h: "?env ''BABEL_ENV'' = Some []" by simp
  from empty_BABEL_ENV_is_absent [of ?env, OF h] h show ?thesis by auto
qed

section \<open>Properties of \<open>path.join\<close> and \<open>path.extname\<close>\<close>

lemma segments_not_Nil: "segments p \<noteq> []"
  by (induction p) (auto split: list.splits)

lemma segments_no_slash: "CHR ''/'' \<notin> set n \<Longrightarrow> segments n = [n]"
  by (induction n) auto

lemma segments_append: "segments (a @ CHR ''/'' # b) = segments a @ segments b"
  using segments_not_Nil [of a]
  by (induction a) (auto split: list.splits simp: segments_not_Nil)

lemma normalize_step_plain: "plain_name n \<Longrightarrow> normalize_step ab n st = n # st"
  by (simp add: plain_name_def normalize_step.simps)

lemma join_segments_snoc:
  "join_segments (xs @ [n]) = (if xs = [] then n else join_segments xs @ ''/'' @ n)"
  by (induction xs rule: join_segments.induct) auto

lemma normalizeString_snoc:
  assumes "plain_name n"
  shows "normalizeString ab (d @ CHR ''/'' # n) =
           (let st = rev (fold (normalize_step ab) (segments d) [])
            in if st = [] then n else join_segments st @ ''/'' @ n)"
proof -
  from assms have "CHR ''/'' \<notin> set n" by (simp add: plain_name_def)
  then have "segments (d @ CHR ''/'' # n) = segments d @ [n]"
    by (simp add: segments_append segments_no_slash)
  then show ?thesis
    using assms by (simp add: normalizeString_def normalize_step_plain join_segments_snoc Let_def)
qed

lemma path_join_plain:
  assumes "plain_name n"
  shows "path_join d n = join_prefix d @ n"
proof (cases "d = []")
  case True
  from assms have n: "n \<noteq> []" "CHR ''/'' \<notin> set n" by (simp_all add: plain_name_def)
  then have "hd n \<noteq> CHR ''/''" "last n \<noteq> CHR ''/''"
    by (metis hd_in_set, metis last_in_set)
  moreover have "normalizeString True n = n"
    using assms n by (simp add: normalizeString_def segments_no_slash normalize_step_plain)
  ultimately show ?thesis
    using True n by (simp add: path_join_def normalize_def join_prefix_def)
next
  case False
  from assms have n: "n \<noteq> []" "CHR ''/'' \<notin> set n" by (simp_all add: plain_name_def)
  then have l: "last (d @ CHR ''/'' # n) \<noteq> CHR ''/''"
    by (metis last_appendR last_ConsR last_in_set list.distinct(1))
  have h: "hd (d @ CHR ''/'' # n) = hd d" using False by simp
  have j: "join_segments [d, n] = d @ CHR ''/'' # n" by simp
  show ?thesis
    using False n l h
    by (simp add: path_join_def normalize_def join_prefix_def j normalizeString_snoc [OF assms] Let_def
             del: join_segments.simps)
qed

lemma path_join_inj:
  "plain_name n \<Longrightarrow> plain_name m \<Longrightarrow> path_join d n = path_join d m \<longleftrightarrow> n = m"
  by (simp add: path_join_plain)

lemma extname_no_slash: "CHR ''/'' \<notin> set (extname p)"
proof -
  let ?b = "takeWhile (\<lambda>c. c \<noteq> CHR ''/'') (dropWhile (\<lambda>c. c = CHR ''/'') (rev p))"
  have "CHR ''/'' \<notin> set ?b" by (auto dest: set_takeWhileD)
  moreover have "set (takeWhile (\<lambda>c. c \<noteq> CHR ''.'') ?b) \<subseteq> set ?b"
    by (auto dest: set_takeWhileD)
  ultimately show ?thesis
    by (auto simp: extname_def Let_def)
qed

lemma hex_name_plain:
  assumes "is_hex_digest h" "CHR ''/'' \<notin> set e"
  shows "plain_name (h @ e)"
proof -
  from assms(1) have len: "length h = 32" and sub: "set h \<subseteq> set ''0123456789abcdef''"
    by (simp_all add: is_hex_digest_def)
  from len obtain c cs where h: "h = c # cs" by (cases h) auto
  with sub have c: "c \<in> set ''0123456789abcdef''" by simp
  then have "c \<noteq> CHR ''.''" by auto
  moreover from sub have "CHR ''/'' \<notin> set h" by auto
  ultimately show ?thesis using assms(2) h by (auto simp: plain_name_def)
qed

lemma cache_path_eq_iff:
  assumes "is_hex_digest h1" "is_hex_digest h2"
  shows "path_join d (h1 @ extname f1) = path_join d (h2 @ extname f2) \<longleftrightarrow>
           h1 = h2 \<and> extname f1 = extname f2"
proof -
  have "plain_name (h1 @ extname f1)" "plain_name (h2 @ extname f2)"
    using assms by (simp_all add: hex_name_plain extname_no_slash)
  then have "path_join d (h1 @ extname f1) = path_join d (h2 @ extname f2) \<longleftrightarrow>
        h1 @ extname f1 = h2 @ extname f2"
    by (rule path_join_inj)
  moreover from assms have "length h1 = length h2" by (simp add: is_hex_digest_def)
  ultimately show ?thesis by simp
qed

section \<open>Properties of the function \<open>build\<close> returns\<close>

lemma emit_simps [simp]:
  "files (emit (ReadFileSync f) w) = files w"
  "files (emit (ExistsSync f) w) = files w"
  "files (emit (TransformSync f) w) = files w"
  "log (emit e w) = log w @ [e]"
  "invocations (emit e w) = invocations w"
  by (simp_all add: emit_def)

lemma ensureTransformed_path:
  assumes "files w f = Some raw" "ensureTransformed h p f w = (Inr path, w')"
  shows "path = cachePathOf h p f raw"
  using assms
  by (auto simp: ensureTransformed_def Let_def split: if_splits sum.splits prod.splits)

lemma ensureTransformed_hit:
  assumes "files w f = Some raw" "files w (cachePathOf h p f raw) \<noteq> None"
  shows "ensureTransformed h p f w =
           (Inr (cachePathOf h p f raw),
            w\<lparr>log := log w @ [ReadFileSync f, ExistsSync (cachePathOf h p f raw)]\<rparr>)"
  using assms by (auto simp: ensureTransformed_def Let_def emit_def)

text \<open>
  C5. When the cache path derived for a file already exists, the call reads the file,
  makes exactly one existence check, never calls the engine, writes nothing (the files
  and the counter of temporary names are unchanged, the trace grows by the read and
  the check only), and returns the path that the call that created the entry returned.
\<close>

theorem fast_path:
  assumes "files w0 f = Some raw" "ensureTransformed h p f w0 = (Inr created, w1)"
    and "files w f = Some raw" "files w created \<noteq> None"
  shows "ensureTransformed h p f w =
           (Inr created, w\<lparr>log := log w @ [ReadFileSync f, ExistsSync created]\<rparr>)"
proof -
  from assms(1,2) have "created = cachePathOf h p f raw" by (rule ensureTransformed_path)
  with assms(3,4) show ?thesis by (simp add: ensureTransformed_hit)
qed

text \<open>
  C6. When the engine throws, the call returns that very error, and the files are
  unchanged: the trace grows by the read, the existence check and the engine call only,
  so neither the map file nor the code file is created or modified.
\<close>

theorem engine_error_propagates:
  assumes "files w f = Some raw" "files w (cachePathOf h p f raw) = None"
    and "getSourceMap h (files w) f (stripBomBuf raw) = Inr inputSourceMap"
    and "transformSync h (stripBomBuf raw) (finalOptions p) inputSourceMap f = Inl e"
  shows "ensureTransformed h p f w =
           (Inl e, w\<lparr>log := log w @ [ReadFileSync f, ExistsSync (cachePathOf h p f raw),
                                        TransformSync f]\<rparr>)"
  using assms by (simp add: ensureTransformed_def Let_def emit_def)

lemma digit_char_not_m: "d < 10 \<Longrightarrow> CHR ''m'' \<noteq> digit_char d"
proof
  assume d: "d < 10" and "CHR ''m'' = digit_char d"
  then have "of_char (char_of (48 + d)) = (of_char (CHR ''m'') :: nat)"
    by (simp add: digit_char_def)
  with d show False by simp
qed

lemma decimal_no_m: "CHR ''m'' \<notin> set (decimal n)"
proof (induction n rule: decimal.induct)
  case (1 n)
  show ?case
  proof (cases "n < 10")
    case True
    then show ?thesis by (subst decimal.simps) (simp add: digit_char_not_m)
  next
    case False
    moreover have "n mod 10 < 10" by simp
    ultimately show ?thesis
      using 1 by (subst decimal.simps) (simp add: digit_char_not_m)
  qed
qed

lemma decimal_not_map: "decimal n \<noteq> ''map''" "''map'' \<noteq> decimal n"
proof -
  have "CHR ''m'' \<in> set ''map''" by simp
  with decimal_no_m [of n] show "decimal n \<noteq> ''map''" by metis
  then show "''map'' \<noteq> decimal n" by (rule not_sym)
qed

lemma take7:
  "take n [a, b, c, d, e, f, g] \<in>
     {[], [a], [a, b], [a, b, c], [a, b, c, d], [a, b, c, d, e], [a, b, c, d, e, f],
      [a, b, c, d, e, f, g]}"
  by (simp add: take_Cons')

lemma stripBomBuf_bom: "stripBomBuf (utf8_bom @ body) = body"
  by (simp add: utf8_bom_def)

lemma stripBomBuf_no_bom: "take 3 body \<noteq> utf8_bom \<Longrightarrow> stripBomBuf body = body"
  by (cases body rule: stripBomBuf.cases) (auto simp: utf8_bom_def)

text \<open>
  C8, as amended. A file that begins with a byte-order mark and the file with that mark
  removed have the same content digest and, their names having the same extension,
  the same cache path, provided the file with the mark removed does not itself begin
  with a mark: one mark is stripped, not every leading mark.
\<close>

theorem bom_same_cache_path:
  assumes "take 3 body \<noteq> utf8_bom" "extname f = extname g"
  shows "contentDigest h p (utf8_bom @ body) = contentDigest h p body
         \<and> cachePathOf h p f (utf8_bom @ body) = cachePathOf h p g body"
  using assms by (simp add: contentDigest_def cachePathOf_def stripBomBuf_bom stripBomBuf_no_bom)

lemma build_cacheKey:
  assumes "build h projectDir cd u ce = Inr (Some p)"
  shows "cacheKey p = md5Hex h (seedInputs h projectDir)" and "cacheDir p = cd"
  using assms
  by (auto simp: build_def Let_def split: if_splits sum.splits)

lemma contentDigest_eq: "contentDigest h p raw = md5 h (cacheKey p @ stripBomBuf raw)"
  by (simp add: contentDigest_def md5Hex_def)

lemma cachePathOf_eq_iff:
  assumes "is_hex_digest (contentDigest h p raw1)" "is_hex_digest (contentDigest h' q raw2)"
    and "cacheDir q = cacheDir p"
  shows "cachePathOf h p f1 raw1 = cachePathOf h' q f2 raw2 \<longleftrightarrow>
           contentDigest h p raw1 = contentDigest h' q raw2 \<and> extname f1 = extname f2"
  using assms by (simp add: cachePathOf_def cache_path_eq_iff)

text \<open>
  C3, as amended. Under one configuration, two files whose bytes agree once a leading
  byte-order mark is stripped, and whose names have the same extension, have the same
  cache path. Files whose stripped bytes differ have different cache paths, and so
  has one file under two configurations built for the same cache directory whose seed
  tuples differ in exactly one component, provided the digests are 32 hexadecimal
  digits and do not collide on the inputs concerned.
\<close>

theorem cache_path_sensitivity:
  "(stripBomBuf raw1 = stripBomBuf raw2 \<and> extname f1 = extname f2 \<longrightarrow>
      cachePathOf h p f1 raw1 = cachePathOf h p f2 raw2)
   \<and> (is_hex_digest (contentDigest h p raw1) \<and> is_hex_digest (contentDigest h p raw2)
      \<and> stripBomBuf raw1 \<noteq> stripBomBuf raw2
      \<and> \<not> collision h (cacheKey p @ stripBomBuf raw1) (cacheKey p @ stripBomBuf raw2) \<longrightarrow>
      cachePathOf h p f1 raw1 \<noteq> cachePathOf h p f2 raw2)
   \<and> (build h projectDir cd u ce = Inr (Some p) \<and> build h' projectDir' cd u' ce' = Inr (Some q)
      \<and> md5 h' = md5 h
      \<and> seedInputs h projectDir = pre @ a # suf \<and> seedInputs h' projectDir' = pre @ b # suf
      \<and> a \<noteq> b
      \<and> \<not> collision h (concat (seedInputs h projectDir)) (concat (seedInputs h' projectDir'))
      \<and> \<not> collision h (cacheKey p @ stripBomBuf raw) (cacheKey q @ stripBomBuf raw)
      \<and> is_hex_digest (contentDigest h p raw) \<and> is_hex_digest (contentDigest h' q raw) \<longrightarrow>
      cachePathOf h p f raw \<noteq> cachePathOf h' q f raw)"
proof (intro conjI impI)
  assume "stripBomBuf raw1 = stripBomBuf raw2 \<and> extname f1 = extname f2"
  then show "cachePathOf h p f1 raw1 = cachePathOf h p f2 raw2"
    by (simp add: cachePathOf_def contentDigest_def)
next
  assume a: "is_hex_digest (contentDigest h p raw1) \<and> is_hex_digest (contentDigest h p raw2)
      \<and> stripBomBuf raw1 \<noteq> stripBomBuf raw2
      \<and> \<not> collision h (cacheKey p @ stripBomBuf raw1) (cacheKey p @ stripBomBuf raw2)"
  then have "contentDigest h p raw1 \<noteq> contentDigest h p raw2"
    by (auto simp: contentDigest_eq collision_def)
  with a show "cachePathOf h p f1 raw1 \<noteq> cachePathOf h p f2 raw2"
    by (simp add: cachePathOf_eq_iff)
next
  assume a: "build h projectDir cd u ce = Inr (Some p) \<and> build h' projectDir' cd u' ce' = Inr (Some q)
      \<and> md5 h' = md5 h
      \<and> seedInputs h projectDir = pre @ a # suf \<and> seedInputs h' projectDir' = pre @ b # suf
      \<and> a \<noteq> b
      \<and> \<not> collision h (concat (seedInputs h projectDir)) (concat (seedInputs h' projectDir'))
      \<and> \<not> collision h (cacheKey p @ stripBomBuf raw) (cacheKey q @ stripBomBuf raw)
      \<and> is_hex_digest (contentDigest h p raw) \<and> is_hex_digest (contentDigest h' q raw)"
  then have kp: "cacheKey p = md5 h (concat (seedInputs h projectDir))"
    and kq: "cacheKey q = md5 h (concat (seedInputs h' projectDir'))"
    and dirs: "cacheDir q = cacheDir p"
    by (auto simp: build_cacheKey md5Hex_def)
  from a have "concat (seedInputs h projectDir) \<noteq> concat (seedInputs h' projectDir')"
    by simp
  with a kp kq have "cacheKey p \<noteq> cacheKey q"
    by (auto simp: collision_def)
  with a have "contentDigest h p raw \<noteq> contentDigest h' q raw"
    by (auto simp: contentDigest_eq collision_def)
  with a dirs show "cachePathOf h p f raw \<noteq> cachePathOf h' q f raw"
    by (simp add: cachePathOf_eq_iff)
qed

text \<open>
  C4. On a miss with a successful engine call, the trace of the call is: read, existence
  check, engine call, write of the map's temporary file, its rename to the map path,
  write of the code's temporary file, its rename to the cache path. After every prefix
  of that trace the cache path is either absent, or holds the code with its comment
  while the map path holds the map of the same engine call.
\<close>

theorem map_published_before_code:
  assumes rd: "files w f = Some raw"
    and miss: "files w (cachePathOf h p f raw) = None"
    and sm: "getSourceMap h (files w) f (stripBomBuf raw) = Inr inputSourceMap"
    and tr: "transformSync h (stripBomBuf raw) (finalOptions p) inputSourceMap f = Inr (code, outputMap)"
  defines "cp \<equiv> cachePathOf h p f raw"
  defines "mapData \<equiv> JSON_stringify h outputMap"
  defines "codeData \<equiv> code @ [CHR 0x0A] @ generateMapFileComment (cp @ ''.map'')"
  defines "tmpMap \<equiv> cp @ ''.map'' @ ''.'' @ decimal (tmp_hash h (Suc (invocations w)))"
  defines "tmpCode \<equiv> cp @ ''.'' @ decimal (tmp_hash h (Suc (Suc (invocations w))))"
  defines "evs \<equiv> [ReadFileSync f, ExistsSync cp, TransformSync f,
                    WriteFile tmpMap mapData, Rename tmpMap (cp @ ''.map''),
                    WriteFile tmpCode codeData, Rename tmpCode cp]"
  shows "fst (ensureTransformed h p f w) = Inr cp
         \<and> log (snd (ensureTransformed h p f w)) = log w @ evs
         \<and> files (snd (ensureTransformed h p f w)) = replay evs (files w)
         \<and> (\<forall>n. replay (take n evs) (files w) cp = None
                \<or> (replay (take n evs) (files w) cp = Some codeData
                    \<and> replay (take n evs) (files w) (cp @ ''.map'') = Some mapData))"
proof -
  have run: "ensureTransformed h p f w =
      (Inr cp, writeFileAtomic_sync h cp codeData
                 (writeFileAtomic_sync h (cp @ ''.map'') mapData
                    (emit (TransformSync f) (emit (ExistsSync cp) (emit (ReadFileSync f) w)))))"
    using rd miss sm tr
    by (simp add: ensureTransformed_def Let_def cp_def mapData_def codeData_def)
  have 1: "fst (ensureTransformed h p f w) = Inr cp"
    by (simp add: run)
  have 2: "log (snd (ensureTransformed h p f w)) = log w @ evs"
    by (simp add: run writeFileAtomic_sync_def Let_def emit_def evs_def tmpMap_def tmpCode_def)
  have 3: "files (snd (ensureTransformed h p f w)) = replay evs (files w)"
    by (simp add: run writeFileAtomic_sync_def Let_def emit_def evs_def tmpMap_def tmpCode_def
        replay_def)
  have none: "files w cp = None" using miss by (simp add: cp_def)
  have 4: "replay (take n evs) (files w) cp = None
           \<or> (replay (take n evs) (files w) cp = Some codeData
               \<and> replay (take n evs) (files w) (cp @ ''.map'') = Some mapData)" for n
  proof -
    have "take n evs \<in> {[], [ReadFileSync f], [ReadFileSync f, ExistsSync cp],
        [ReadFileSync f, ExistsSync cp, TransformSync f],
        [ReadFileSync f, ExistsSync cp, TransformSync f, WriteFile tmpMap mapData],
        [ReadFileSync f, ExistsSync cp, TransformSync f, WriteFile tmpMap mapData,
         Rename tmpMap (cp @ ''.map'')],
        [ReadFileSync f, ExistsSync cp, TransformSync f, WriteFile tmpMap mapData,
         Rename tmpMap (cp @ ''.map''), WriteFile tmpCode codeData],
        evs}"
      unfolding evs_def by (rule take7)
    then show ?thesis
      using none
      by (auto simp: replay_def evs_def tmpMap_def tmpCode_def decimal_not_map)
  qed
  from 1 2 3 4 show ?thesis by blast
qed

section \<open>The example host at work\<close>

lemma hex_digit_mem: "0 \<le> d \<Longrightarrow> d < 16 \<Longrightarrow> hex_digit d \<in> set ''0123456789abcdef''"
proof -
  assume "0 \<le> d" "d < 16"
  then have "nat d < length ''0123456789abcdef''" by simp
  then show ?thesis unfolding hex_digit_def by (rule nth_mem)
qed

lemma example_md5_hex: "is_hex_digest (example_md5 s)"
proof -
  have mem: "hex_digit (n div 16 ^ k mod 16) \<in> set ''0123456789abcdef''" for n :: int and k :: nat
    by (rule hex_digit_mem) simp_all
  have "set (hex32 n) \<subseteq> set ''0123456789abcdef''" for n
    unfolding hex32_def set_map by (rule image_subsetI) (rule mem)
  moreover have "length (hex32 n) = 32" for n
    by (simp add: hex32_def)
  ultimately show ?thesis
    unfolding is_hex_digest_def example_md5_def by blast
qed

lemma example_digests:
  "is_hex_digest (contentDigest example_host p raw)"
  "is_hex_digest (contentDigest failing_host p raw)"
  by (simp_all add: contentDigest_def md5Hex_def example_host_def failing_host_def example_md5_hex)

lemma build_A: "build example_host ''/proj'' ''/proj/.cache'' (Some options_A) False = Inr (Some pipeline_A)"
  by code_simp

lemma build_B: "build example_host ''/proj'' ''/proj/.cache'' (Some options_B) False = Inr (Some pipeline_B)"
  by code_simp

lemma build_other: "build example_host ''/other'' ''/proj/.cache'' (Some options_A) False = Inr (Some pipeline_other)"
  by code_simp

lemma path_A: "cachePathOf example_host pipeline_A ''/proj/test.js'' ''const x = 1;'' =
   ''/proj/.cache/2c698847bced0bcfb5002db1394502bb.js''"
  by code_simp

lemma run_A_fst: "fst (ensureTransformed example_host pipeline_A ''/proj/test.js'' example_world) =
   Inr ''/proj/.cache/2c698847bced0bcfb5002db1394502bb.js''"
  by code_simp

lemma after_A_src: "files world_after_A ''/proj/test.js'' = Some ''const x = 1;''"
  by code_simp

lemma after_A_code: "files world_after_A ''/proj/.cache/2c698847bced0bcfb5002db1394502bb.js'' =
   Some ''/*@babel/plugin-syntax-object-rest-spread*//*@babel/plugin-syntax-async-generators*//*../stage-4*/const x = 1;\<newline>//# sourceMappingURL=/proj/.cache/2c698847bced0bcfb5002db1394502bb.js.map''"
  by code_simp

lemma run_B_fst: "fst (ensureTransformed example_host pipeline_B ''/proj/test.js'' world_after_A) =
   Inr ''/proj/.cache/2c698847bced0bcfb5002db1394502bb.js''"
  by code_simp

lemma run_B_log: "log (snd (ensureTransformed example_host pipeline_B ''/proj/test.js'' world_after_A)) =
   log world_after_A @ [ReadFileSync ''/proj/test.js'', ExistsSync ''/proj/.cache/2c698847bced0bcfb5002db1394502bb.js'']"
  by code_simp

lemma no_coll: "\<not> collision example_host (cacheKey pipeline_A @ stripBomBuf ''const x = 1;'') (cacheKey pipeline_A @ stripBomBuf ''const x = 2;'')"
  by code_simp

theorem fast_path_witness:
  "files example_world ''/proj/test.js'' = Some ''const x = 1;''
   \<and> ensureTransformed example_host pipeline_A ''/proj/test.js'' example_world =
       (Inr ''/proj/.cache/2c698847bced0bcfb5002db1394502bb.js'', world_after_A)
   \<and> files world_after_A ''/proj/test.js'' = Some ''const x = 1;''
   \<and> files world_after_A ''/proj/.cache/2c698847bced0bcfb5002db1394502bb.js'' \<noteq> None
   \<and> ensureTransformed example_host pipeline_A ''/proj/test.js'' world_after_A =
       (Inr ''/proj/.cache/2c698847bced0bcfb5002db1394502bb.js'',
        world_after_A\<lparr>log := log world_after_A @
          [ReadFileSync ''/proj/test.js'',
           ExistsSync ''/proj/.cache/2c698847bced0bcfb5002db1394502bb.js'']\<rparr>)"
proof -
  have a: "files example_world ''/proj/test.js'' = Some ''const x = 1;''"
    by (simp add: example_world_def)
  have b: "ensureTransformed example_host pipeline_A ''/proj/test.js'' example_world =
             (Inr ''/proj/.cache/2c698847bced0bcfb5002db1394502bb.js'', world_after_A)"
    using run_A_fst by (simp add: world_after_A_def prod_eq_iff)
  have d: "files world_after_A ''/proj/.cache/2c698847bced0bcfb5002db1394502bb.js'' \<noteq> None"
    by (simp add: after_A_code)
  from fast_path [OF a b after_A_src d] a b after_A_src d show ?thesis by simp
qed

lemma failing_path: "cachePathOf failing_host pipeline_A ''/proj/test.js'' ''const x = 1;'' =
   ''/proj/.cache/2c698847bced0bcfb5002db1394502bb.js''"
  by code_simp

theorem engine_error_propagates_witness:
  "files example_world ''/proj/test.js'' = Some ''const x = 1;''
   \<and> files example_world (cachePathOf failing_host pipeline_A ''/proj/test.js'' ''const x = 1;'') = None
   \<and> getSourceMap failing_host (files example_world) ''/proj/test.js'' (stripBomBuf ''const x = 1;'')
       = Inr JUndefined
   \<and> transformSync failing_host (stripBomBuf ''const x = 1;'') (finalOptions pipeline_A) JUndefined
         ''/proj/test.js'' = Inl (Thrown ''SyntaxError'')
   \<and> ensureTransformed failing_host pipeline_A ''/proj/test.js'' example_world =
       (Inl (Thrown ''SyntaxError''),
        example_world\<lparr>log := log example_world @
          [ReadFileSync ''/proj/test.js'',
           ExistsSync (cachePathOf failing_host pipeline_A ''/proj/test.js'' ''const x = 1;''),
           TransformSync ''/proj/test.js'']\<rparr>)"
proof -
  have a: "files example_world ''/proj/test.js'' = Some ''const x = 1;''"
    by (simp add: example_world_def)
  have b: "files example_world (cachePathOf failing_host pipeline_A ''/proj/test.js'' ''const x = 1;'') = None"
    by (simp add: failing_path example_world_def)
  have c: "getSourceMap failing_host (files example_world) ''/proj/test.js'' (stripBomBuf ''const x = 1;'')
       = Inr JUndefined"
    by (simp add: getSourceMap_def failing_host_def example_host_def)
  have d: "transformSync failing_host (stripBomBuf ''const x = 1;'') (finalOptions pipeline_A) JUndefined
         ''/proj/test.js'' = Inl (Thrown ''SyntaxError'')"
    by (simp add: failing_host_def)
  from engine_error_propagates [OF a b c d] a b c d show ?thesis by simp
qed

theorem bom_same_cache_path_witness:
  "take 3 ''x'' \<noteq> utf8_bom
   \<and> extname ''/proj/a.js'' = extname ''/proj/b.js''
   \<and> contentDigest example_host pipeline_A (utf8_bom @ ''x'') = contentDigest example_host pipeline_A ''x''
   \<and> cachePathOf example_host pipeline_A ''/proj/a.js'' (utf8_bom @ ''x'') =
       cachePathOf example_host pipeline_A ''/proj/b.js'' ''x''"
proof -
  have a: "take 3 ''x'' \<noteq> utf8_bom" by (simp add: utf8_bom_def)
  have b: "extname ''/proj/a.js'' = extname ''/proj/b.js''" by code_simp
  from bom_same_cache_path [OF a b] a b show ?thesis by simp
qed

text \<open>
  C8 as stated fails on a file that begins with two byte-order marks: the file with one
  mark removed still begins with a mark, one mark is stripped from each, and the bytes
  that are hashed differ. On the example host the two content digests differ, and so
  do the two cache paths.
\<close>

theorem double_bom_counterexample:
  "take 3 (utf8_bom @ utf8_bom @ ''x'') = utf8_bom
   \<and> contentDigest example_host pipeline_A (utf8_bom @ utf8_bom @ ''x'') \<noteq>
       contentDigest example_host pipeline_A (utf8_bom @ ''x'')
   \<and> cachePathOf example_host pipeline_A ''/proj/a.js'' (utf8_bom @ utf8_bom @ ''x'') \<noteq>
       cachePathOf example_host pipeline_A ''/proj/a.js'' (utf8_bom @ ''x'')"
proof -
  have 1: "take 3 (utf8_bom @ utf8_bom @ ''x'') = utf8_bom"
    by (simp add: utf8_bom_def)
  have 2: "contentDigest example_host pipeline_A (utf8_bom @ utf8_bom @ ''x'') \<noteq>
       contentDigest example_host pipeline_A (utf8_bom @ ''x'')"
    by code_simp
  then have 3: "cachePathOf example_host pipeline_A ''/proj/a.js'' (utf8_bom @ utf8_bom @ ''x'') \<noteq>
       cachePathOf example_host pipeline_A ''/proj/a.js'' (utf8_bom @ ''x'')"
    by (simp add: cachePathOf_eq_iff example_digests)
  from 1 2 3 show ?thesis by blast
qed

text \<open>
  C3 as stated fails twice. Adding a byte-order mark changes the content of a file and
  not its cache path; and two byte-identical files under one configuration have
  different cache paths when their names have different extensions.
\<close>

theorem cache_path_counterexample:
  "utf8_bom @ ''x'' \<noteq> ''x''
   \<and> cachePathOf example_host pipeline_A ''/proj/a.js'' (utf8_bom @ ''x'') =
       cachePathOf example_host pipeline_A ''/proj/a.js'' ''x''
   \<and> cachePathOf example_host pipeline_A ''/proj/a.js'' ''x'' \<noteq>
       cachePathOf example_host pipeline_A ''/proj/a.mjs'' ''x''"
proof -
  have 1: "utf8_bom @ ''x'' \<noteq> ''x''" by (simp add: utf8_bom_def)
  have 2: "cachePathOf example_host pipeline_A ''/proj/a.js'' (utf8_bom @ ''x'') =
       cachePathOf example_host pipeline_A ''/proj/a.js'' ''x''"
    by (simp add: cachePathOf_def contentDigest_def stripBomBuf_bom)
  have "extname ''/proj/a.js'' \<noteq> extname ''/proj/a.mjs''" by code_simp
  then have 3: "cachePathOf example_host pipeline_A ''/proj/a.js'' ''x'' \<noteq>
       cachePathOf example_host pipeline_A ''/proj/a.mjs'' ''x''"
    by (simp add: cachePathOf_eq_iff example_digests)
  from 1 2 3 show ?thesis by blast
qed

lemma no_coll_seed:
  "\<not> collision example_host (concat (seedInputs example_host ''/proj''))
        (concat (seedInputs example_host ''/other''))"
  by code_simp

lemma no_coll_other:
  "\<not> collision example_host (cacheKey pipeline_A @ stripBomBuf ''const x = 1;'')
        (cacheKey pipeline_other @ stripBomBuf ''const x = 1;'')"
  by code_simp

lemma seeds:
  "seedInputs example_host ''/proj'' = [''10.0.0'', ''1.0.0''] @ ''/proj'' # [''test'']"
  "seedInputs example_host ''/other'' = [''10.0.0'', ''1.0.0''] @ ''/other'' # [''test'']"
  by (simp_all add: seedInputs_def example_host_def envName_def)

theorem cache_path_sensitivity_witness:
  "stripBomBuf (utf8_bom @ ''x'') = stripBomBuf ''x''
   \<and> extname ''/proj/a.js'' = extname ''/proj/b.js''
   \<and> cachePathOf example_host pipeline_A ''/proj/a.js'' (utf8_bom @ ''x'') =
       cachePathOf example_host pipeline_A ''/proj/b.js'' ''x''
   \<and> is_hex_digest (contentDigest example_host pipeline_A ''const x = 1;'')
   \<and> is_hex_digest (contentDigest example_host pipeline_A ''const x = 2;'')
   \<and> stripBomBuf ''const x = 1;'' \<noteq> stripBomBuf ''const x = 2;''
   \<and> \<not> collision example_host (cacheKey pipeline_A @ stripBomBuf ''const x = 1;'')
          (cacheKey pipeline_A @ stripBomBuf ''const x = 2;'')
   \<and> cachePathOf example_host pipeline_A ''/proj/test.js'' ''const x = 1;'' \<noteq>
       cachePathOf example_host pipeline_A ''/proj/test.js'' ''const x = 2;''
   \<and> build example_host ''/proj'' ''/proj/.cache'' (Some options_A) False = Inr (Some pipeline_A)
   \<and> build example_host ''/other'' ''/proj/.cache'' (Some options_A) False = Inr (Some pipeline_other)
   \<and> seedInputs example_host ''/proj'' = [''10.0.0'', ''1.0.0''] @ ''/proj'' # [''test'']
   \<and> seedInputs example_host ''/other'' = [''10.0.0'', ''1.0.0''] @ ''/other'' # [''test'']
   \<and> ''/proj'' \<noteq> ''/other''
   \<and> \<not> collision example_host (concat (seedInputs example_host ''/proj''))
          (concat (seedInputs example_host ''/other''))
   \<and> \<not> collision example_host (cacheKey pipeline_A @ stripBomBuf ''const x = 1;'')
          (cacheKey pipeline_other @ stripBomBuf ''const x = 1;'')
   \<and> is_hex_digest (contentDigest example_host pipeline_other ''const x = 1;'')
   \<and> cachePathOf example_host pipeline_A ''/proj/test.js'' ''const x = 1;'' \<noteq>
       cachePathOf example_host pipeline_other ''/proj/test.js'' ''const x = 1;''"
proof -
  have a1: "stripBomBuf (utf8_bom @ ''x'') = stripBomBuf ''x''"
    by (simp add: utf8_bom_def)
  have a2: "extname ''/proj/a.js'' = extname ''/proj/b.js''"
    by code_simp
  have b1: "stripBomBuf ''const x = 1;'' \<noteq> stripBomBuf ''const x = 2;''"
    by simp
  have c1: "''/proj'' \<noteq> ''/other''"
    by simp
  note hexA1 = example_digests(1) [of pipeline_A "''const x = 1;''"]
  note hexA2 = example_digests(1) [of pipeline_A "''const x = 2;''"]
  note hexO = example_digests(1) [of pipeline_other "''const x = 1;''"]
  have A: "cachePathOf example_host pipeline_A ''/proj/a.js'' (utf8_bom @ ''x'') =
       cachePathOf example_host pipeline_A ''/proj/b.js'' ''x''"
    using cache_path_sensitivity
      [where h = example_host and p = pipeline_A and ?raw1.0 = "utf8_bom @ ''x''"
         and ?raw2.0 = "''x''" and ?f1.0 = "''/proj/a.js''" and ?f2.0 = "''/proj/b.js''"]
      a1 a2 by blast
  have B: "cachePathOf example_host pipeline_A ''/proj/test.js'' ''const x = 1;'' \<noteq>
       cachePathOf example_host pipeline_A ''/proj/test.js'' ''const x = 2;''"
    using cache_path_sensitivity
      [where h = example_host and p = pipeline_A and ?raw1.0 = "''const x = 1;''"
         and ?raw2.0 = "''const x = 2;''" and ?f1.0 = "''/proj/test.js''"
         and ?f2.0 = "''/proj/test.js''"]
      hexA1 hexA2 b1 no_coll by blast
  have C: "cachePathOf example_host pipeline_A ''/proj/test.js'' ''const x = 1;'' \<noteq>
       cachePathOf example_host pipeline_other ''/proj/test.js'' ''const x = 1;''"
    using cache_path_sensitivity
      [where h = example_host and p = pipeline_A and h' = example_host and q = pipeline_other
         and projectDir = "''/proj''" and projectDir' = "''/other''" and cd = "''/proj/.cache''"
         and u = "Some options_A" and u' = "Some options_A" and ce = False and ce' = False
         and pre = "[''10.0.0'', ''1.0.0'']" and a = "''/proj''" and b = "''/other''"
         and suf = "[''test'']" and raw = "''const x = 1;''" and f = "''/proj/test.js''"]
      build_A build_other seeds c1 no_coll_seed no_coll_other hexA1 hexO by blast
  from a1 a2 A hexA1 hexA2 b1 no_coll B build_A build_other seeds c1 no_coll_seed no_coll_other
    hexO C
  show ?thesis by blast
qed

theorem map_published_before_code_witness:
  "files example_world ''/proj/test.js'' = Some ''const x = 1;''
   \<and> files example_world (cachePathOf example_host pipeline_A ''/proj/test.js'' ''const x = 1;'') = None
   \<and> getSourceMap example_host (files example_world) ''/proj/test.js'' (stripBomBuf ''const x = 1;'')
       = Inr JUndefined
   \<and> transformSync example_host (stripBomBuf ''const x = 1;'') (finalOptions pipeline_A) JUndefined
         ''/proj/test.js'' =
       Inr (''/*@babel/plugin-syntax-object-rest-spread*//*@babel/plugin-syntax-async-generators*//*../stage-4*/const x = 1;'',
            JObject [(''version'', JNumber 3), (''file'', JString ''/proj/test.js'')])
   \<and> fst (ensureTransformed example_host pipeline_A ''/proj/test.js'' example_world) =
       Inr (cachePathOf example_host pipeline_A ''/proj/test.js'' ''const x = 1;'')
   \<and> length (log (snd (ensureTransformed example_host pipeline_A ''/proj/test.js'' example_world)))
       = length (log example_world) + 7"
proof -
  have a: "files example_world ''/proj/test.js'' = Some ''const x = 1;''"
    by (simp add: example_world_def)
  have b: "files example_world (cachePathOf example_host pipeline_A ''/proj/test.js'' ''const x = 1;'') = None"
    by (simp add: path_A example_world_def)
  have c: "getSourceMap example_host (files example_world) ''/proj/test.js'' (stripBomBuf ''const x = 1;'')
       = Inr JUndefined"
    by (simp add: getSourceMap_def example_host_def)
  have d: "transformSync example_host (stripBomBuf ''const x = 1;'') (finalOptions pipeline_A) JUndefined
         ''/proj/test.js'' =
       Inr (''/*@babel/plugin-syntax-object-rest-spread*//*@babel/plugin-syntax-async-generators*//*../stage-4*/const x = 1;'',
            JObject [(''version'', JNumber 3), (''file'', JString ''/proj/test.js'')])"
    by code_simp
  note t = map_published_before_code [OF a b c d]
  from t have "fst (ensureTransformed example_host pipeline_A ''/proj/test.js'' example_world) =
       Inr (cachePathOf example_host pipeline_A ''/proj/test.js'' ''const x = 1;'')"
    by blast
  moreover from t have "length (log (snd (ensureTransformed example_host pipeline_A ''/proj/test.js'' example_world)))
       = length (log example_world) + 7"
    by simp
  ultimately show ?thesis using a b c d by blast
qed

text \<open>
  The cache key is the digest of the seed inputs alone: two pipelines built with
  different \<open>testOptions\<close> share every cache path.
\<close>

lemma build_shares_cache_paths:
  assumes "build h projectDir cd u ce = Inr (Some p)" "build h projectDir cd u' ce' = Inr (Some q)"
  shows "cacheKey p = cacheKey q" and "cachePathOf h p f raw = cachePathOf h q f raw"
  using assms by (simp_all add: build_cacheKey cachePathOf_def contentDigest_def)

text \<open>
  C1, which the code breaks. With the example host, the options \<open>A\<close> and \<open>B\<close> differ in
  \<open>testOptions\<close> only, and so do the options Babel gets; the cache keys are equal.
  After pipeline \<open>A\<close> has transformed the file, pipeline \<open>B\<close> finds the entry of \<open>A\<close>:
  it returns the same path without calling the engine, and the file at that path holds
  the code transformed under \<open>A\<close>, not what the engine returns under \<open>B\<close>.
\<close>

theorem stale_artifact_served:
  "build example_host ''/proj'' ''/proj/.cache'' (Some options_A) False = Inr (Some pipeline_A)
   \<and> build example_host ''/proj'' ''/proj/.cache'' (Some options_B) False = Inr (Some pipeline_B)
   \<and> finalOptions pipeline_A \<noteq> finalOptions pipeline_B
   \<and> cacheKey pipeline_A = cacheKey pipeline_B
   \<and> fst (ensureTransformed example_host pipeline_A ''/proj/test.js'' example_world) =
       Inr ''/proj/.cache/2c698847bced0bcfb5002db1394502bb.js''
   \<and> fst (ensureTransformed example_host pipeline_B ''/proj/test.js'' world_after_A) =
       Inr ''/proj/.cache/2c698847bced0bcfb5002db1394502bb.js''
   \<and> log (snd (ensureTransformed example_host pipeline_B ''/proj/test.js'' world_after_A)) =
       log world_after_A @
         [ReadFileSync ''/proj/test.js'',
          ExistsSync ''/proj/.cache/2c698847bced0bcfb5002db1394502bb.js'']
   \<and> files (snd (ensureTransformed example_host pipeline_B ''/proj/test.js'' world_after_A))
         ''/proj/.cache/2c698847bced0bcfb5002db1394502bb.js'' =
       Some ''/*@babel/plugin-syntax-object-rest-spread*//*@babel/plugin-syntax-async-generators*//*../stage-4*/const x = 1;\<newline>//# sourceMappingURL=/proj/.cache/2c698847bced0bcfb5002db1394502bb.js.map''
   \<and> transformSync example_host ''const x = 1;'' (finalOptions pipeline_B) JUndefined ''/proj/test.js'' =
       Inr (''/*@babel/plugin-syntax-object-rest-spread*//*@babel/plugin-syntax-async-generators*//*x*//*../stage-4*/const x = 1;'',
            JObject [(''version'', JNumber 3), (''file'', JString ''/proj/test.js'')])"
proof -
  have 1: "finalOptions pipeline_A \<noteq> finalOptions pipeline_B"
    by (simp add: pipeline_A_def pipeline_B_def)
  have 2: "cacheKey pipeline_A = cacheKey pipeline_B"
    by (simp add: pipeline_A_def pipeline_B_def)
  have 3: "files (snd (ensureTransformed example_host pipeline_B ''/proj/test.js'' world_after_A))
         ''/proj/.cache/2c698847bced0bcfb5002db1394502bb.js'' =
       Some ''/*@babel/plugin-syntax-object-rest-spread*//*@babel/plugin-syntax-async-generators*//*../stage-4*/const x = 1;\<newline>//# sourceMappingURL=/proj/.cache/2c698847bced0bcfb5002db1394502bb.js.map''"
    by code_simp
  have 4: "transformSync example_host ''const x = 1;'' (finalOptions pipeline_B) JUndefined ''/proj/test.js'' =
       Inr (''/*@babel/plugin-syntax-object-rest-spread*//*@babel/plugin-syntax-async-generators*//*x*//*../stage-4*/const x = 1;'',
            JObject [(''version'', JNumber 3), (''file'', JString ''/proj/test.js'')])"
    by code_simp
  from build_A build_B 1 2 run_A_fst run_B_fst run_B_log 3 4 show ?thesis by blast
qed

end
